theory Spec2Isabelle
  imports Complex_Main "HOL-Library.Sublist"
begin

section \<open>Python values: errors, floats, strings\<close>

text \<open>
  The exceptions the modelled code can raise. A function that can raise returns
  \<open>error + 'a\<close>, with \<open>Inl\<close> for the exception.
\<close>

datatype error =
  ValueError | TypeError | AttributeError | KeyError | JSONDecodeError | ZeroDivisionError

text \<open>
  A Python float: a finite value, an infinity or NaN. Finite values are idealised as
  reals: rounding, overflow and the sign of zero are not modelled.
\<close>

datatype pyfloat = Fin real | PInf | NInf | NaN

definition inf_signed :: "real \<Rightarrow> pyfloat" where
  "inf_signed s = (if s = 0 then NaN else if 0 < s then PInf else NInf)"

fun fneg :: "pyfloat \<Rightarrow> pyfloat" where
  "fneg (Fin a) = Fin (- a)"
| "fneg PInf = NInf"
| "fneg NInf = PInf"
| "fneg NaN = NaN"

fun fadd :: "pyfloat \<Rightarrow> pyfloat \<Rightarrow> pyfloat" where
  "fadd (Fin a) (Fin b) = Fin (a + b)"
| "fadd NaN _ = NaN"
| "fadd _ NaN = NaN"
| "fadd PInf NInf = NaN"
| "fadd NInf PInf = NaN"
| "fadd PInf _ = PInf"
| "fadd _ PInf = PInf"
| "fadd NInf _ = NInf"
| "fadd _ NInf = NInf"

definition fsub :: "pyfloat \<Rightarrow> pyfloat \<Rightarrow> pyfloat" where
  "fsub a b = fadd a (fneg b)"

fun fmul :: "pyfloat \<Rightarrow> pyfloat \<Rightarrow> pyfloat" where
  "fmul (Fin a) (Fin b) = Fin (a * b)"
| "fmul NaN _ = NaN"
| "fmul _ NaN = NaN"
| "fmul PInf (Fin b) = inf_signed b"
| "fmul (Fin a) PInf = inf_signed a"
| "fmul NInf (Fin b) = inf_signed (- b)"
| "fmul (Fin a) NInf = inf_signed (- a)"
| "fmul PInf PInf = PInf"
| "fmul PInf NInf = NInf"
| "fmul NInf PInf = NInf"
| "fmul NInf NInf = PInf"

text \<open>
  Float division \<^verbatim>\<open>a / b\<close>: a zero divisor raises ZeroDivisionError whatever the
  dividend is.
\<close>

fun fdiv :: "pyfloat \<Rightarrow> pyfloat \<Rightarrow> error + pyfloat" where
  "fdiv (Fin a) (Fin b) = (if b = 0 then Inl ZeroDivisionError else Inr (Fin (a / b)))"
| "fdiv PInf (Fin b) = (if b = 0 then Inl ZeroDivisionError else Inr (inf_signed b))"
| "fdiv NInf (Fin b) = (if b = 0 then Inl ZeroDivisionError else Inr (inf_signed (- b)))"
| "fdiv NaN (Fin b) = (if b = 0 then Inl ZeroDivisionError else Inr NaN)"
| "fdiv _ NaN = Inr NaN"
| "fdiv (Fin a) _ = Inr (Fin 0)"
| "fdiv _ _ = Inr NaN"

text \<open>The comparison \<^verbatim>\<open>a < b\<close> of two floats: false whenever one of them is NaN.\<close>

fun flt :: "pyfloat \<Rightarrow> pyfloat \<Rightarrow> bool" where
  "flt (Fin a) (Fin b) = (a < b)"
| "flt NaN _ = False"
| "flt _ NaN = False"
| "flt _ NInf = False"
| "flt PInf _ = False"
| "flt _ _ = True"

text \<open>
  The builtins \<^verbatim>\<open>min(a, b)\<close> and \<^verbatim>\<open>max(a, b)\<close> keep the first argument unless the
  second is strictly smaller (greater).
\<close>

definition py_min :: "pyfloat \<Rightarrow> pyfloat \<Rightarrow> pyfloat" where
  "py_min a b = (if flt b a then b else a)"

definition py_max :: "pyfloat \<Rightarrow> pyfloat \<Rightarrow> pyfloat" where
  "py_max a b = (if flt a b then b else a)"

text \<open>
  Strings are lists of characters; a character stands for a code point below 256.
  \<^verbatim>\<open>str.isspace\<close> holds of these code points: 9 to 13, 28 to 32, 133 and 160.
\<close>

definition py_isspace :: "char \<Rightarrow> bool" where
  "py_isspace c = (c \<in> set [CHR 0x09, CHR 0x0A, CHR 0x0B, CHR 0x0C, CHR 0x0D,
                            CHR 0x1C, CHR 0x1D, CHR 0x1E, CHR 0x1F, CHR 0x20,
                            CHR 0x85, CHR 0xA0])"

text \<open>
  \<^verbatim>\<open>str.lower\<close>: the letters A to Z, and the upper-case letters of the range 192 to
  222 (all of it but the multiplication sign 215), move 32 code points up.
\<close>

definition upper_chars :: string where
  "upper_chars = ''ABCDEFGHIJKLMNOPQRSTUVWXYZ'' @
     [CHR 0xC0, CHR 0xC1, CHR 0xC2, CHR 0xC3, CHR 0xC4, CHR 0xC5, CHR 0xC6, CHR 0xC7,
      CHR 0xC8, CHR 0xC9, CHR 0xCA, CHR 0xCB, CHR 0xCC, CHR 0xCD, CHR 0xCE, CHR 0xCF,
      CHR 0xD0, CHR 0xD1, CHR 0xD2, CHR 0xD3, CHR 0xD4, CHR 0xD5, CHR 0xD6,
      CHR 0xD8, CHR 0xD9, CHR 0xDA, CHR 0xDB, CHR 0xDC, CHR 0xDD, CHR 0xDE]"

definition lower_chars :: string where
  "lower_chars = ''abcdefghijklmnopqrstuvwxyz'' @
     [CHR 0xE0, CHR 0xE1, CHR 0xE2, CHR 0xE3, CHR 0xE4, CHR 0xE5, CHR 0xE6, CHR 0xE7,
      CHR 0xE8, CHR 0xE9, CHR 0xEA, CHR 0xEB, CHR 0xEC, CHR 0xED, CHR 0xEE, CHR 0xEF,
      CHR 0xF0, CHR 0xF1, CHR 0xF2, CHR 0xF3, CHR 0xF4, CHR 0xF5, CHR 0xF6,
      CHR 0xF8, CHR 0xF9, CHR 0xFA, CHR 0xFB, CHR 0xFC, CHR 0xFD, CHR 0xFE]"

definition lower_char :: "char \<Rightarrow> char" where
  "lower_char c = (case map_of (zip upper_chars lower_chars) c of None \<Rightarrow> c | Some l \<Rightarrow> l)"

definition py_lower :: "string \<Rightarrow> string" where
  "py_lower s = map lower_char s"

text \<open>
  Removing the characters of a class from both ends. \<^verbatim>\<open>s.strip()\<close> removes the
  characters of \<^verbatim>\<open>str.isspace\<close>.
\<close>

definition strip_by :: "(char \<Rightarrow> bool) \<Rightarrow> string \<Rightarrow> string" where
  "strip_by sp s = rev (dropWhile sp (rev (dropWhile sp s)))"

definition py_strip :: "string \<Rightarrow> string" where
  "py_strip s = strip_by py_isspace s"

text \<open>The substring test \<^verbatim>\<open>sub in s\<close>.\<close>

fun py_in :: "string \<Rightarrow> string \<Rightarrow> bool" where
  "py_in sub [] = (sub = [])"
| "py_in sub (c # cs) = (prefix sub (c # cs) \<or> py_in sub cs)"

text \<open>
  \<^verbatim>\<open>s.replace(old, new)\<close>: the occurrences of \<^verbatim>\<open>old\<close> are found from left to right
  and do not overlap; an empty \<^verbatim>\<open>old\<close> matches before every character and at the end.
\<close>

function py_replace :: "string \<Rightarrow> string \<Rightarrow> string \<Rightarrow> string" where
  "py_replace old new [] = (if old = [] then new else [])"
| "py_replace old new (c # cs) =
     (if old = [] then new @ c # py_replace old new cs
      else if prefix old (c # cs)
      then new @ py_replace old new (drop (length old) (c # cs))
      else c # py_replace old new cs)"
  by pat_completeness auto
termination
  by (relation "measure (\<lambda>(old, new, s). length s)") auto

subsection \<open>The builtin float on a string\<close>

text \<open>
  \<^verbatim>\<open>float(s)\<close> strips white space and reads the grammar of the language reference:
  \<^verbatim>\<open>
    digitpart   ::= digit (["_"] digit)*
    number      ::= [digitpart] "." digitpart | digitpart ["."]
    exponent    ::= ("e" | "E") [sign] digitpart
    floatnumber ::= number [exponent]
    floatvalue  ::= [sign] (floatnumber | "inf" | "infinity" | "nan")
  \<close>
  with the three words in any case. Any other string raises ValueError. The white
  space that \<^verbatim>\<open>float\<close> strips is narrower than that of \<^verbatim>\<open>str.strip\<close>: the code
  points 28 to 31 are not part of it.
\<close>

definition float_isspace :: "char \<Rightarrow> bool" where
  "float_isspace c = (c \<in> set [CHR 0x09, CHR 0x0A, CHR 0x0B, CHR 0x0C, CHR 0x0D,
                               CHR 0x20, CHR 0x85, CHR 0xA0])"

definition is_digit :: "char \<Rightarrow> bool" where
  "is_digit c = (c \<in> set ''0123456789'')"

definition digit_val :: "char \<Rightarrow> nat" where
  "digit_val c = of_char c - 48"

fun digitpart :: "string \<Rightarrow> bool" where
  "digitpart [] = False"
| "digitpart [c] = is_digit c"
| "digitpart (c # d # cs) =
     (is_digit c \<and> (if d = CHR ''_'' then digitpart cs else digitpart (d # cs)))"

definition digits_value :: "string \<Rightarrow> nat" where
  "digits_value s = foldl (\<lambda>a c. 10 * a + digit_val c) 0 (filter is_digit s)"

definition split_sign :: "string \<Rightarrow> bool \<times> string" where
  "split_sign s =
     (case s of
        [] \<Rightarrow> (False, [])
      | c # cs \<Rightarrow> if c = CHR ''-'' then (True, cs)
                  else if c = CHR ''+'' then (False, cs) else (False, s))"

definition is_dot :: "char \<Rightarrow> bool" where
  "is_dot c = (c = CHR ''.'')"

definition parse_number :: "string \<Rightarrow> real option" where
  "parse_number s =
     (let ip = takeWhile (\<lambda>c. \<not> is_dot c) s;
          rest = dropWhile (\<lambda>c. \<not> is_dot c) s
      in if rest = [] then (if digitpart ip then Some (real (digits_value ip)) else None)
         else let fp = tl rest;
                  frac = real (digits_value fp) / 10 ^ length (filter is_digit fp)
              in if ip = [] then (if digitpart fp then Some frac else None)
                 else if digitpart ip \<and> (fp = [] \<or> digitpart fp)
                      then Some (real (digits_value ip) + frac) else None)"

definition parse_exponent :: "string \<Rightarrow> int option" where
  "parse_exponent s =
     (let (neg, ds) = split_sign s
      in if digitpart ds
         then Some (if neg then - int (digits_value ds) else int (digits_value ds))
         else None)"

definition is_e :: "char \<Rightarrow> bool" where
  "is_e c = (c = CHR ''e'' \<or> c = CHR ''E'')"

definition parse_floatnumber :: "string \<Rightarrow> real option" where
  "parse_floatnumber s =
     (let m = takeWhile (\<lambda>c. \<not> is_e c) s;
          rest = dropWhile (\<lambda>c. \<not> is_e c) s
      in case parse_number m of
           None \<Rightarrow> None
         | Some v \<Rightarrow>
             if rest = [] then Some v
             else (case parse_exponent (tl rest) of
                     None \<Rightarrow> None
                   | Some e \<Rightarrow>
                       Some (if 0 \<le> e then v * 10 ^ nat e else v / 10 ^ nat (- e))))"

definition py_float :: "string \<Rightarrow> error + pyfloat" where
  "py_float s =
     (let (neg, u) = split_sign (strip_by float_isspace s);
          l = py_lower u
      in if l = ''inf'' \<or> l = ''infinity'' then Inr (if neg then NInf else PInf)
         else if l = ''nan'' then Inr NaN
         else (case parse_floatnumber u of
                 None \<Rightarrow> Inl ValueError
               | Some v \<Rightarrow> Inr (Fin (if neg then - v else v))))"

subsection \<open>Predicates on characters and strings\<close>

text \<open>
  A string without white space and not empty, such as the unit names that
  \<^verbatim>\<open>parse_time\<close> looks for.
\<close>

definition solid :: "string \<Rightarrow> bool" where
  "solid old = (old \<noteq> [] \<and> list_all (\<lambda>c. \<not> py_isspace c) old)"

text \<open>The characters of the numbers that \<^const>\<open>parse_floatnumber\<close> accepts.\<close>

definition number_char :: "char \<Rightarrow> bool" where
  "number_char c = (is_digit c \<or> c \<in> set ''_.eE+-'')"

text \<open>The first letters of \<^verbatim>\<open>hour\<close> and \<^verbatim>\<open>min\<close>.\<close>

definition unit_letter :: "char \<Rightarrow> bool" where
  "unit_letter c = (c = CHR ''h'' \<or> c = CHR ''m'')"

section \<open>The reward function (experience\_collector.py)\<close>

text \<open>
  \<^verbatim>\<open>parse_time\<close>:
  \<^verbatim>\<open>
    time_str = time_str.lower().strip()
    if 'min' in time_str:
        return float(time_str.replace('min', '').strip())
    elif 'hour' in time_str:
        hours = float(time_str.replace('hours', '').replace('hour', '').strip())
        return hours * 60
    elif 'day' in time_str:
        days = float(time_str.replace('days', '').replace('day', '').strip())
        return days * 8 * 60
    else:
        return 60.0
  \<close>
\<close>

definition parse_time :: "string \<Rightarrow> error + pyfloat" where
  "parse_time s =
     (let time_str = py_strip (py_lower s)
      in if py_in ''min'' time_str
         then py_float (py_strip (py_replace ''min'' '''' time_str))
         else if py_in ''hour'' time_str
         then (case py_float (py_strip
                     (py_replace ''hour'' '''' (py_replace ''hours'' '''' time_str))) of
                 Inl e \<Rightarrow> Inl e
               | Inr hours \<Rightarrow> Inr (fmul hours (Fin 60)))
         else if py_in ''day'' time_str
         then (case py_float (py_strip
                     (py_replace ''day'' '''' (py_replace ''days'' '''' time_str))) of
                 Inl e \<Rightarrow> Inl e
               | Inr days \<Rightarrow> Inr (fmul (fmul days (Fin 8)) (Fin 60)))
         else Inr (Fin 60))"

text \<open>
  The two dictionaries of \<^verbatim>\<open>compute_reward_from_outcome\<close>. Each key the function
  reads is a field, \<open>None\<close> when the key is absent, of the type the arithmetic of the
  function needs (the record of section 3 of the specification): numbers are finite
  reals, \<^verbatim>\<open>resources_used\<close> is a list of names.
\<close>

record outcome =
  success :: "bool option"
  actual_time :: "real option"
  resources_used :: "string list option"
  minimum_resources :: "real option"
  error_count :: "real option"
  user_modifications :: "real option"
  safety_violations :: "bool option"

record exec_context =
  estimated_time :: "string option"
  confidence :: "real option"

text \<open>\<^verbatim>\<open>d.get(key, default)\<close> on a field.\<close>

definition get_or :: "'a option \<Rightarrow> 'a \<Rightarrow> 'a" where
  "get_or field dflt = (case field of None \<Rightarrow> dflt | Some v \<Rightarrow> v)"

text \<open>
  \<^verbatim>\<open>compute_reward_from_outcome\<close>, statement by statement; \<open>reward1\<close> to \<open>reward7\<close>
  are the successive values of the variable \<^verbatim>\<open>reward\<close>.
  \<^verbatim>\<open>
    reward = 0
    if outcome.get('success', False): reward += 100
    else: reward -= 100
    if outcome.get('success', False):
        estimated = parse_time(context.get('estimated_time', '1 hour'))
        actual = outcome.get('actual_time', estimated)
        efficiency = min(estimated / max(actual, 1), 2.0)
        reward += efficiency * 20
    resources_used = len(outcome.get('resources_used', []))
    minimum_resources = outcome.get('minimum_resources', resources_used)
    if resources_used <= minimum_resources: reward += 10
    else: reward -= (resources_used - minimum_resources) * 5
    error_count = outcome.get('error_count', 0)
    if error_count == 0: reward += 15
    else: reward -= error_count * 10
    user_modifications = outcome.get('user_modifications', 0)
    if user_modifications == 0: reward += 10
    else: reward -= user_modifications * 5
    if not outcome.get('safety_violations', False): reward += 10
    else: reward -= 50
    confidence = context.get('confidence', 0.5)
    reward += confidence * 5
    return reward
  \<close>
\<close>

definition time_efficiency_step ::
  "outcome \<Rightarrow> exec_context \<Rightarrow> pyfloat \<Rightarrow> error + pyfloat" where
  "time_efficiency_step outc ctx reward1 =
     (if get_or (success outc) False
      then (case parse_time (get_or (estimated_time ctx) ''1 hour'') of
              Inl e \<Rightarrow> Inl e
            | Inr estimated \<Rightarrow>
                (let actual = (case actual_time outc of
                                 None \<Rightarrow> estimated | Some a \<Rightarrow> Fin a)
                 in case fdiv estimated (py_max actual (Fin 1)) of
                      Inl e \<Rightarrow> Inl e
                    | Inr ratio \<Rightarrow>
                        (let efficiency = py_min ratio (Fin 2)
                         in Inr (fadd reward1 (fmul efficiency (Fin 20))))))
      else Inr reward1)"

definition compute_reward_from_outcome :: "outcome \<Rightarrow> exec_context \<Rightarrow> error + pyfloat" where
  "compute_reward_from_outcome outc ctx =
     (let reward0 = Fin 0;
          reward1 = (if get_or (success outc) False
                     then fadd reward0 (Fin 100) else fsub reward0 (Fin 100))
      in case time_efficiency_step outc ctx reward1 of
           Inl e \<Rightarrow> Inl e
         | Inr reward2 \<Rightarrow>
             (let used = real (length (get_or (resources_used outc) []));
                  minimum = get_or (minimum_resources outc) used;
                  reward3 = (if used \<le> minimum then fadd reward2 (Fin 10)
                             else fsub reward2 (Fin ((used - minimum) * 5)));
                  errors = get_or (error_count outc) 0;
                  reward4 = (if errors = 0 then fadd reward3 (Fin 15)
                             else fsub reward3 (Fin (errors * 10)));
                  modifications = get_or (user_modifications outc) 0;
                  reward5 = (if modifications = 0 then fadd reward4 (Fin 10)
                             else fsub reward4 (Fin (modifications * 5)));
                  reward6 = (if \<not> get_or (safety_violations outc) False
                             then fadd reward5 (Fin 10) else fsub reward5 (Fin 50));
                  conf = get_or (confidence ctx) (1 / 2);
                  reward7 = fadd reward6 (Fin (conf * 5))
              in Inr reward7))"

subsection \<open>The seven terms of the specification\<close>

text \<open>
  The terms as section 4.2 of the specification words them, each a function of the
  outcome and the context alone. The specification words the time parser as total:
  ``it never fails, only falls back to the default'' of 60 minutes. So the parser of
  the specification takes the value that \<^const>\<open>parse_time\<close> reads and 60 minutes
  for a text that cannot be read.
\<close>

definition parse_time_spec :: "string \<Rightarrow> pyfloat" where
  "parse_time_spec s = (case parse_time s of Inl e \<Rightarrow> Fin 60 | Inr minutes \<Rightarrow> minutes)"

text \<open>
  The quotient of the time term. Its divisor \<open>max(actual, 1)\<close> is never zero; for
  completeness a zero divisor gives NaN.
\<close>

definition fquot :: "pyfloat \<Rightarrow> pyfloat \<Rightarrow> pyfloat" where
  "fquot a b = (case fdiv a b of Inl e \<Rightarrow> NaN | Inr q \<Rightarrow> q)"

definition outcome_term :: "outcome \<Rightarrow> pyfloat" where
  "outcome_term outc = (if get_or (success outc) False then Fin 100 else Fin (- 100))"

definition time_term :: "outcome \<Rightarrow> exec_context \<Rightarrow> pyfloat" where
  "time_term outc ctx =
     (if get_or (success outc) False
      then (let estimated = parse_time_spec (get_or (estimated_time ctx) ''1 hour'');
                actual = (case actual_time outc of None \<Rightarrow> estimated | Some a \<Rightarrow> Fin a);
                efficiency = py_min (fquot estimated (py_max actual (Fin 1))) (Fin 2)
            in fmul efficiency (Fin 20))
      else Fin 0)"

definition resource_term :: "outcome \<Rightarrow> pyfloat" where
  "resource_term outc =
     (let used = real (length (get_or (resources_used outc) []));
          minimum = get_or (minimum_resources outc) used
      in if used \<le> minimum then Fin 10 else Fin (- (5 * (used - minimum))))"

definition quality_term :: "outcome \<Rightarrow> pyfloat" where
  "quality_term outc =
     (let errors = get_or (error_count outc) 0
      in if errors = 0 then Fin 15 else Fin (- (10 * errors)))"

definition satisfaction_term :: "outcome \<Rightarrow> pyfloat" where
  "satisfaction_term outc =
     (let modifications = get_or (user_modifications outc) 0
      in if modifications = 0 then Fin 10 else Fin (- (5 * modifications)))"

definition safety_term :: "outcome \<Rightarrow> pyfloat" where
  "safety_term outc =
     (if get_or (safety_violations outc) False then Fin (- 50) else Fin 10)"

definition confidence_term :: "exec_context \<Rightarrow> pyfloat" where
  "confidence_term ctx = Fin (get_or (confidence ctx) (1 / 2) * 5)"

definition reward_spec :: "outcome \<Rightarrow> exec_context \<Rightarrow> pyfloat" where
  "reward_spec outc ctx =
     fadd (fadd (fadd (fadd (fadd (fadd (outcome_term outc) (time_term outc ctx))
       (resource_term outc)) (quality_term outc)) (satisfaction_term outc))
       (safety_term outc)) (confidence_term ctx)"

section \<open>Experiences (experience\_collector.py)\<close>

text \<open>
  The values that the fields of an experience hold: the values that \<^verbatim>\<open>json.dumps\<close>
  accepts. Numbers are finite reals (the specification requires a finite reward); a
  dictionary has strings as keys (section 3 of the specification) and is the list of
  its items, looked up by key. A tuple is a value of the program that
  \<^verbatim>\<open>json.dumps\<close> writes as an array, so \<^verbatim>\<open>json.loads\<close> never returns one.
\<close>

datatype json =
  JNull | JBool bool | JNum real | JStr string | JList "json list"
  | JTuple "json list" | JDict "(string \<times> json) list"

text \<open>
  The dataclass \<^verbatim>\<open>Experience\<close>. Python checks no annotation, and \<^verbatim>\<open>load_experiences\<close>
  stores whatever value the line has under a key, so every field is a \<^typ>\<open>json\<close> value.
\<close>

record Experience =
  state :: json
  action :: json
  reward :: json
  next_state :: json
  "done" :: json
  metadata :: json
  timestamp :: json

text \<open>Truth of a value in a condition.\<close>

fun truthy :: "json \<Rightarrow> bool" where
  "truthy JNull = False"
| "truthy (JBool b) = b"
| "truthy (JNum x) = (x \<noteq> 0)"
| "truthy (JStr s) = (s \<noteq> [])"
| "truthy (JList xs) = (xs \<noteq> [])"
| "truthy (JTuple xs) = (xs \<noteq> [])"
| "truthy (JDict kvs) = (kvs \<noteq> [])"

text \<open>\<^verbatim>\<open>d.get(key, default)\<close> on the items of a dictionary.\<close>

definition items_get :: "(string \<times> json) list \<Rightarrow> string \<Rightarrow> json \<Rightarrow> json" where
  "items_get kvs key dflt = (case map_of kvs key of None \<Rightarrow> dflt | Some v \<Rightarrow> v)"

text \<open>
  \<^verbatim>\<open>v.get(key, default)\<close> on any value: only a dictionary has the method, any other
  value raises AttributeError.
\<close>

fun dict_get :: "json \<Rightarrow> string \<Rightarrow> json \<Rightarrow> error + json" where
  "dict_get (JDict kvs) key dflt = Inr (items_get kvs key dflt)"
| "dict_get _ key dflt = Inl AttributeError"

text \<open>
  \<^verbatim>\<open>v[key]\<close> with a string key: KeyError on a dictionary without the key, TypeError
  on any value that is not a dictionary.
\<close>

fun dict_item :: "json \<Rightarrow> string \<Rightarrow> error + json" where
  "dict_item (JDict kvs) key =
     (case map_of kvs key of None \<Rightarrow> Inl KeyError | Some v \<Rightarrow> Inr v)"
| "dict_item _ key = Inl TypeError"

text \<open>
  \<^verbatim>\<open>v < m\<close> for a float \<^verbatim>\<open>m\<close>: numbers compare (a boolean as 0 or 1), any other
  value raises TypeError.
\<close>

fun less_than :: "json \<Rightarrow> real \<Rightarrow> error + bool" where
  "less_than (JNum x) m = Inr (x < m)"
| "less_than (JBool b) m = Inr ((if b then 1 else 0) < m)"
| "less_than _ m = Inl TypeError"


subsection \<open>The buffer file\<close>



text \<open>
  The file is \<open>None\<close> when it does not exist, else the list of its lines. A line is
  represented by what \<^verbatim>\<open>json.loads(line.strip())\<close> makes of it: \<open>Some v\<close> for a line
  that decodes to the value \<open>v\<close>, \<open>None\<close> for a line on which it raises
  JSONDecodeError (a blank line, cut-off text). \<^verbatim>\<open>_append_to_buffer\<close> writes
  \<^verbatim>\<open>experience.to_json() + '\n'\<close>, that is \<^verbatim>\<open>json.dumps\<close> of \<^verbatim>\<open>to_dict\<close> on one
  line, so the line written is \<open>Some (decoded (to_dict e))\<close>. The text itself is not
  modelled.
\<close>

type_synonym buffer = "json option list option"






text \<open>
  What the body of the loop of \<^verbatim>\<open>load_experiences\<close> does with one line: it appends an
  experience, leaves the line out at a filter (\<^verbatim>\<open>continue\<close>), skips it with a warning
  in the handler of \<^verbatim>\<open>(json.JSONDecodeError, KeyError)\<close>, or raises an exception the
  handler does not catch.
\<close>

datatype line_result = Loaded Experience | Filtered | Skipped error | Raised error

text \<open>
  \<^verbatim>\<open>
    if task_type and exp_dict.get('metadata', {}).get('task_type') != task_type:
        continue
  \<close>
  and the same for \<^verbatim>\<open>domain\<close>: \<open>Inr True\<close> when the line is left out.
\<close>

definition metadata_filter :: "string option \<Rightarrow> string \<Rightarrow> json \<Rightarrow> error + bool" where
  "metadata_filter wanted key exp_dict =
     (case wanted of
        None \<Rightarrow> Inr False
      | Some w \<Rightarrow>
          if w = [] then Inr False
          else (case dict_get exp_dict ''metadata'' (JDict []) of
                  Inl e \<Rightarrow> Inl e
                | Inr md \<Rightarrow>
                    (case dict_get md key JNull of
                       Inl e \<Rightarrow> Inl e
                     | Inr v \<Rightarrow> Inr (v \<noteq> JStr w))))"

text \<open>
  \<^verbatim>\<open>
    if min_reward and exp_dict.get('reward', 0) < min_reward:
        continue
  \<close>
\<close>

definition reward_filter :: "real option \<Rightarrow> json \<Rightarrow> error + bool" where
  "reward_filter min_reward exp_dict =
     (case min_reward of
        None \<Rightarrow> Inr False
      | Some m \<Rightarrow>
          if m = 0 then Inr False
          else (case dict_get exp_dict ''reward'' (JNum 0) of
                  Inl e \<Rightarrow> Inl e
                | Inr r \<Rightarrow> less_than r m))"

text \<open>
  \<^verbatim>\<open>
    exp = Experience(state=exp_dict['state'], action=exp_dict['action'],
        reward=exp_dict['reward'], next_state=exp_dict.get('next_state'),
        done=exp_dict['done'], metadata=exp_dict.get('metadata', {}),
        timestamp=exp_dict.get('timestamp', datetime.now().isoformat()))
  \<close>
  The arguments are evaluated from left to right; the first that raises decides.
\<close>

definition reconstruct :: "string \<Rightarrow> json \<Rightarrow> error + Experience" where
  "reconstruct clock exp_dict =
     (case dict_item exp_dict ''state'' of Inl e \<Rightarrow> Inl e | Inr st \<Rightarrow>
      case dict_item exp_dict ''action'' of Inl e \<Rightarrow> Inl e | Inr ac \<Rightarrow>
      case dict_item exp_dict ''reward'' of Inl e \<Rightarrow> Inl e | Inr rw \<Rightarrow>
      case dict_get exp_dict ''next_state'' JNull of Inl e \<Rightarrow> Inl e | Inr ns \<Rightarrow>
      case dict_item exp_dict ''done'' of Inl e \<Rightarrow> Inl e | Inr dn \<Rightarrow>
      case dict_get exp_dict ''metadata'' (JDict []) of Inl e \<Rightarrow> Inl e | Inr md \<Rightarrow>
      case dict_get exp_dict ''timestamp'' (JStr clock) of Inl e \<Rightarrow> Inl e | Inr ts \<Rightarrow>
      Inr \<lparr>state = st, action = ac, reward = rw, next_state = ns, done = dn,
           metadata = md, timestamp = ts\<rparr>)"

text \<open>The handler: KeyError is caught, every other exception of the body goes on.\<close>

definition handler :: "error \<Rightarrow> line_result" where
  "handler e = (if e = KeyError \<or> e = JSONDecodeError then Skipped e else Raised e)"

definition load_line ::
  "string \<Rightarrow> string option \<Rightarrow> string option \<Rightarrow> real option \<Rightarrow> json option \<Rightarrow> line_result"
  where
  "load_line clock task_type domain min_reward line =
     (case line of
        None \<Rightarrow> handler JSONDecodeError
      | Some exp_dict \<Rightarrow>
          (case metadata_filter task_type ''task_type'' exp_dict of
             Inl e \<Rightarrow> handler e
           | Inr out1 \<Rightarrow>
               if out1 then Filtered
               else (case metadata_filter domain ''domain'' exp_dict of
                  Inl e \<Rightarrow> handler e
                | Inr out2 \<Rightarrow>
                    if out2 then Filtered
                    else (case reward_filter min_reward exp_dict of
                       Inl e \<Rightarrow> handler e
                     | Inr out3 \<Rightarrow>
                         if out3 then Filtered
                         else (case reconstruct clock exp_dict of
                            Inl e \<Rightarrow> handler e
                          | Inr ex \<Rightarrow> Loaded ex)))))"

text \<open>
  The loop over the lines, with the number \<open>i\<close> of the line and the list
  \<^verbatim>\<open>experiences\<close> built so far:
  \<^verbatim>\<open>
    for line in f:
        if limit and len(experiences) >= limit:
            break
        ...
  \<close>
\<close>

fun load_loop ::
  "(nat \<Rightarrow> string) \<Rightarrow> int option \<Rightarrow> string option \<Rightarrow> string option \<Rightarrow>
   real option \<Rightarrow> nat \<Rightarrow> json option list \<Rightarrow> Experience list \<Rightarrow>
   error + Experience list" where
  "load_loop clock limit task_type domain min_reward i [] experiences = Inr experiences"
| "load_loop clock limit task_type domain min_reward i (line # rest) experiences =
     (if (case limit of None \<Rightarrow> False
          | Some n \<Rightarrow> n \<noteq> 0 \<and> n \<le> int (length experiences))
      then Inr experiences
      else (case load_line (clock i) task_type domain min_reward line of
              Loaded ex \<Rightarrow>
                load_loop clock limit task_type domain min_reward (Suc i) rest
                  (experiences @ [ex])
            | Filtered \<Rightarrow>
                load_loop clock limit task_type domain min_reward (Suc i) rest experiences
            | Skipped e \<Rightarrow>
                load_loop clock limit task_type domain min_reward (Suc i) rest experiences
            | Raised e \<Rightarrow> Inl e))"

text \<open>
  \<^verbatim>\<open>load_experiences\<close>: no file gives the empty list. The argument \<open>clock\<close> gives,
  for the number of a line, the value of \<^verbatim>\<open>datetime.now().isoformat()\<close> when that line
  is read.
\<close>

subsection \<open>What the specification expects of the store\<close>




text \<open>
  The record that a line stands for, read at the clock value \<open>c\<close>: a line that decodes
  to a dictionary with the keys \<^verbatim>\<open>state\<close>, \<^verbatim>\<open>action\<close>, \<^verbatim>\<open>reward\<close> and \<^verbatim>\<open>done\<close>
  stands for the record of its values, with null for a missing \<^verbatim>\<open>next_state\<close>, the
  empty dictionary for a missing \<^verbatim>\<open>metadata\<close> and the clock value for a missing
  \<^verbatim>\<open>timestamp\<close>; a line that does not decode, or a dictionary without one of the
  four keys, stands for no record.
\<close>

definition line_record :: "string \<Rightarrow> json option \<Rightarrow> Experience option" where
  "line_record c line =
     (case line of
        Some (JDict kvs) \<Rightarrow>
          (case (map_of kvs ''state'', map_of kvs ''action'', map_of kvs ''reward'',
                 map_of kvs ''done'') of
             (Some st, Some ac, Some rw, Some dn) \<Rightarrow>
               Some \<lparr>state = st, action = ac, reward = rw,
                     next_state = (case map_of kvs ''next_state'' of
                                     None \<Rightarrow> JNull | Some v \<Rightarrow> v),
                     done = dn,
                     metadata = (case map_of kvs ''metadata'' of
                                   None \<Rightarrow> JDict [] | Some v \<Rightarrow> v),
                     timestamp = (case map_of kvs ''timestamp'' of
                                    None \<Rightarrow> JStr c | Some v \<Rightarrow> v)\<rparr>
           | _ \<Rightarrow> None)
      | _ \<Rightarrow> None)"

text \<open>A line that does not decode, or that decodes to a dictionary.\<close>

definition plain_line :: "json option \<Rightarrow> bool" where
  "plain_line line = (case line of None \<Rightarrow> True | Some (JDict kvs) \<Rightarrow> True | _ \<Rightarrow> False)"


definition load_experiences ::
  "(nat \<Rightarrow> string) \<Rightarrow> buffer \<Rightarrow> int option \<Rightarrow> string option \<Rightarrow> string option \<Rightarrow>
   real option \<Rightarrow> error + Experience list" where
  "load_experiences clock buf limit task_type domain min_reward =
     (case buf of
        None \<Rightarrow> Inr []
      | Some ls \<Rightarrow> load_loop clock limit task_type domain min_reward 0 ls [])"

section \<open>The feature encoder (train.py)\<close>

text \<open>
  A vector is the list of its entries; the conversion to 32-bit floats of
  \<^verbatim>\<open>np.array(..., dtype=np.float32)\<close> is not modelled.
\<close>

text \<open>\<^verbatim>\<open>[1.0 if value == t else 0.0 for t in names]\<close>\<close>

definition one_hot :: "json \<Rightarrow> string list \<Rightarrow> pyfloat list" where
  "one_hot v names = map (\<lambda>t. if v = JStr t then Fin 1 else Fin 0) names"

text \<open>\<^verbatim>\<open>names.index(value)\<close>, for a value that is in the list.\<close>

fun list_index :: "string list \<Rightarrow> json \<Rightarrow> nat" where
  "list_index [] v = 0"
| "list_index (t # ts) v = (if v = JStr t then 0 else Suc (list_index ts v))"

text \<open>
  \<^verbatim>\<open>idx = names.index(value) if value in names else default\<close>, followed by
  \<^verbatim>\<open>[1.0 if i == idx else 0.0 for i in range(n)]\<close>
\<close>

definition index_or :: "json \<Rightarrow> string list \<Rightarrow> nat \<Rightarrow> nat" where
  "index_or v names dflt = (if v \<in> set (map JStr names) then list_index names v else dflt)"

definition hot_at :: "nat \<Rightarrow> nat \<Rightarrow> pyfloat list" where
  "hot_at idx n = map (\<lambda>i. if i = idx then Fin 1 else Fin 0) [0..<n]"

text \<open>
  \<^verbatim>\<open>
    while len(features) < n:
        features.append(0.0)
    return np.array(features[:n], dtype=np.float32)
  \<close>
\<close>

definition pad_to :: "nat \<Rightarrow> pyfloat list \<Rightarrow> pyfloat list" where
  "pad_to n features = take n (features @ replicate (n - length features) (Fin 0))"

text \<open>
  The minutes that \<^verbatim>\<open>extract_state_vector\<close> reads from the time string (the variable
  \<^verbatim>\<open>time_mins\<close>):
  \<^verbatim>\<open>
    if 'hour' in time_str.lower():
        hours = float(time_str.lower().replace('hours', '').replace('hour', '').strip())
        time_mins = hours * 60
    elif 'min' in time_str.lower():
        time_mins = float(time_str.lower().replace('min', '').strip())
    else:
        time_mins = 60.0
  \<close>
\<close>

definition time_mins :: "string \<Rightarrow> error + pyfloat" where
  "time_mins time_str =
     (if py_in ''hour'' (py_lower time_str)
      then (case py_float (py_strip
                  (py_replace ''hour'' '''' (py_replace ''hours'' '''' (py_lower time_str)))) of
              Inl e \<Rightarrow> Inl e
            | Inr hours \<Rightarrow> Inr (fmul hours (Fin 60)))
      else if py_in ''min'' (py_lower time_str)
      then py_float (py_strip (py_replace ''min'' '''' (py_lower time_str)))
      else Inr (Fin 60))"

text \<open>
  The last feature, \<^verbatim>\<open>min(time_mins / 480, 1.0)\<close>, from the value stored under
  \<^verbatim>\<open>estimated_time\<close>; a value that is not a string has no method \<^verbatim>\<open>lower\<close>.
\<close>

definition time_feature :: "json \<Rightarrow> error + pyfloat" where
  "time_feature v =
     (case v of
        JStr time_str \<Rightarrow>
          (case time_mins time_str of
             Inl e \<Rightarrow> Inl e
           | Inr mins \<Rightarrow>
               (case fdiv mins (Fin 480) of
                  Inl e \<Rightarrow> Inl e
                | Inr ratio \<Rightarrow> Inr (py_min ratio (Fin 1))))
      | _ \<Rightarrow> Inl AttributeError)"

definition task_types :: "string list" where
  "task_types = [''feature'', ''bug'', ''refactor'', ''test'', ''docs'', ''review'']"

definition domains :: "string list" where
  "domains = [''frontend'', ''backend'', ''database'', ''security'', ''testing'']"

definition complexity_levels :: "string list" where
  "complexity_levels = [''simple'', ''medium'', ''complex'']"

definition risk_levels :: "string list" where
  "risk_levels = [''low'', ''medium'', ''high'']"

text \<open>
  \<^verbatim>\<open>extract_state_vector\<close>. The first statement calls \<^verbatim>\<open>exp.metadata.get\<close>, which
  raises AttributeError unless the metadata is a dictionary.
\<close>

definition extract_state_vector :: "Experience \<Rightarrow> error + pyfloat list" where
  "extract_state_vector ex =
     (case metadata ex of
        JDict md \<Rightarrow>
          (let task_type = items_get md ''task_type'' (JStr ''feature'');
               features1 = one_hot task_type task_types;
               domain = items_get md ''domain'' (JStr ''backend'');
               features2 = features1 @ one_hot domain domains;
               complexity = items_get md ''complexity'' (JStr ''medium'');
               features3 = features2 @ hot_at (index_or complexity complexity_levels 1) 3;
               risk = items_get md ''risk_level'' (JStr ''low'');
               features4 = features3 @ hot_at (index_or risk risk_levels 0) 3
           in case time_feature (items_get md ''estimated_time'' (JStr ''1 hour'')) of
                Inl e \<Rightarrow> Inl e
              | Inr t \<Rightarrow> Inr (pad_to 50 (features4 @ [t])))
      | _ \<Rightarrow> Inl AttributeError)"

text \<open>
  \<^verbatim>\<open>s in v\<close> for a string \<^verbatim>\<open>s\<close>: membership in a list or a tuple, the substring
  test on a string, the keys of a dictionary; TypeError on any other value.
\<close>

fun py_contains :: "json \<Rightarrow> string \<Rightarrow> error + bool" where
  "py_contains (JList xs) s = Inr (JStr s \<in> set xs)"
| "py_contains (JTuple xs) s = Inr (JStr s \<in> set xs)"
| "py_contains (JStr t) s = Inr (py_in s t)"
| "py_contains (JDict kvs) s = Inr (s \<in> set (map fst kvs))"
| "py_contains _ s = Inl TypeError"

text \<open>\<^verbatim>\<open>[1.0 if s in used else 0.0 for s in names]\<close>\<close>

fun membership :: "json \<Rightarrow> string list \<Rightarrow> error + pyfloat list" where
  "membership used [] = Inr []"
| "membership used (s # ss) =
     (case py_contains used s of
        Inl e \<Rightarrow> Inl e
      | Inr b \<Rightarrow>
          (case membership used ss of
             Inl e \<Rightarrow> Inl e
           | Inr bs \<Rightarrow> Inr ((if b then Fin 1 else Fin 0) # bs)))"

definition all_skills :: "string list" where
  "all_skills = [''security'', ''backend'', ''frontend'', ''database'', ''testing'',
                 ''api-design'', ''architecture'', ''devops'', ''performance'',
                 ''code-quality'']"

definition all_agents :: "string list" where
  "all_agents = [''feature-creator'', ''bug-fixer'', ''code-refactorer'', ''pr-reviewer'',
                 ''security-specialist'']"

definition strategies :: "string list" where
  "strategies = [''direct'', ''sequential'', ''parallel'', ''coordinated'']"

text \<open>
  \<^verbatim>\<open>
    if not skills_used and domain:
        if domain == 'backend': skills_used = ['backend', 'api-design']
        elif domain == 'frontend': skills_used = ['frontend']
        elif domain == 'database': skills_used = ['database']
        elif domain == 'security': skills_used = ['security']
  \<close>
\<close>

definition infer_skills :: "json \<Rightarrow> json \<Rightarrow> json" where
  "infer_skills skills_used domain =
     (if \<not> truthy skills_used \<and> truthy domain
      then (if domain = JStr ''backend'' then JList [JStr ''backend'', JStr ''api-design'']
            else if domain = JStr ''frontend'' then JList [JStr ''frontend'']
            else if domain = JStr ''database'' then JList [JStr ''database'']
            else if domain = JStr ''security'' then JList [JStr ''security'']
            else skills_used)
      else skills_used)"

definition extract_action_vector :: "Experience \<Rightarrow> error + pyfloat list" where
  "extract_action_vector ex =
     (case metadata ex of
        JDict md \<Rightarrow>
          (let skills_used = infer_skills (items_get md ''skills_used'' (JList []))
                               (items_get md ''domain'' (JStr ''''))
           in case membership skills_used all_skills of
                Inl e \<Rightarrow> Inl e
              | Inr features1 \<Rightarrow>
                  (case membership (items_get md ''agents_used'' (JList [])) all_agents of
                     Inl e \<Rightarrow> Inl e
                   | Inr agents \<Rightarrow>
                       (let strategy = items_get md ''strategy'' (JStr ''direct'');
                            features3 = features1 @ agents @
                                          hot_at (index_or strategy strategies 0) 4
                        in Inr (pad_to 30 features3))))
      | _ \<Rightarrow> Inl AttributeError)"

section \<open>Training loop: the train/validation split (train.py, train)\<close>

text \<open>
  Python's \<^verbatim>\<open>int(x)\<close> on a float truncates towards zero. Floats are idealised as
  reals here: rounding of the product \<^verbatim>\<open>len(experiences) * validation_split\<close> is
  not modelled.
\<close>

definition py_int :: "real \<Rightarrow> int" where
  "py_int x = (if 0 \<le> x then \<lfloor>x\<rfloor> else \<lceil>x\<rceil>)"

text \<open>
  A slice bound \<^verbatim>\<open>k\<close> of \<^verbatim>\<open>xs[:k]\<close> or \<^verbatim>\<open>xs[k:]\<close>: a negative bound counts from
  the end, and every bound is clipped to the range of the list. The bound \<^verbatim>\<open>-0\<close> is
  the integer 0, so it is the start of the list, not its end.
\<close>

definition slice_index :: "'a list \<Rightarrow> int \<Rightarrow> nat" where
  "slice_index xs k =
     (if k < 0 then nat (max (k + int (length xs)) 0) else min (nat k) (length xs))"

definition slice_to :: "'a list \<Rightarrow> int \<Rightarrow> 'a list" where
  "slice_to xs k = take (slice_index xs k) xs"

definition slice_from :: "'a list \<Rightarrow> int \<Rightarrow> 'a list" where
  "slice_from xs k = drop (slice_index xs k) xs"

text \<open>
  The first statements of \<^verbatim>\<open>train\<close>:
  \<^verbatim>\<open>
    n_val = int(len(experiences) * validation_split)
    train_exps = experiences[:-n_val]
    val_exps = experiences[-n_val:]
  \<close>
\<close>

definition n_val :: "'a list \<Rightarrow> real \<Rightarrow> int" where
  "n_val experiences validation_split =
     py_int (real (length experiences) * validation_split)"

definition train_split :: "'a list \<Rightarrow> real \<Rightarrow> 'a list \<times> 'a list" where
  "train_split experiences validation_split =
     (let n = n_val experiences validation_split;
          train_exps = slice_to experiences (- n);
          val_exps = slice_from experiences (- n)
      in (train_exps, val_exps))"

section \<open>Properties of the train/validation split\<close>

lemma train_split_append:
  "fst (train_split xs f) @ snd (train_split xs f) = xs"
  by (simp add: train_split_def Let_def slice_to_def slice_from_def)

lemma train_split_positive:
  assumes "0 < n_val xs f" and "n_val xs f \<le> int (length xs)"
  shows "train_split xs f =
           (take (length xs - nat (n_val xs f)) xs, drop (length xs - nat (n_val xs f)) xs)"
proof -
  have "slice_index xs (- n_val xs f) = length xs - nat (n_val xs f)"
    using assms by (simp add: slice_index_def nat_diff_distrib' max_def)
  then show ?thesis
    by (simp add: train_split_def Let_def slice_to_def slice_from_def)
qed

text \<open>
  Claim C6. The claim: the training part is the first \<open>len - floor (len * f)\<close>
  elements and the validation part the last \<open>floor (len * f)\<close> elements. With four
  experiences and the default fraction 0.2 the count \<open>n_val\<close> is 0, the claim asks for
  four training elements and no validation element, and the code yields the opposite:
  an empty training part and all four elements as validation part.
\<close>

theorem train_split_zero_val:
  "n_val [a, b, c, d] (2 / 10) = 0 \<and>
   train_split [a, b, c, d] (2 / 10) = ([], [a, b, c, d])"
  by (simp add: train_split_def n_val_def py_int_def slice_to_def slice_from_def
      slice_index_def)

section \<open>Properties of the time parser\<close>

lemmas string_eval =
  py_lower_def lower_char_def upper_chars_def lower_chars_def py_strip_def strip_by_def
  py_isspace_def float_isspace_def

lemmas float_eval =
  py_float_def split_sign_def parse_floatnumber_def parse_number_def parse_exponent_def
  is_e_def is_dot_def is_digit_def digits_value_def digit_val_def

text \<open>The examples of section 8 of the specification.\<close>

lemma parse_time_examples:
  "parse_time ''30 min'' = Inr (Fin 30)"
  "parse_time ''1 hour'' = Inr (Fin 60)"
  "parse_time ''2 hours'' = Inr (Fin 120)"
  "parse_time ''1 day'' = Inr (Fin 480)"
  "parse_time ''garbage'' = Inr (Fin 60)"
  by (simp_all add: parse_time_def string_eval float_eval)

text \<open>A string that names no unit falls back to 60 minutes.\<close>

lemma parse_time_no_unit:
  assumes "\<not> py_in ''min'' (py_strip (py_lower s))"
    and "\<not> py_in ''hour'' (py_strip (py_lower s))"
    and "\<not> py_in ''day'' (py_strip (py_lower s))"
  shows "parse_time s = Inr (Fin 60)"
  using assms by (simp add: parse_time_def)

text \<open>The only exception of the parser is the ValueError of \<^verbatim>\<open>float\<close>.\<close>

lemma py_float_error: "py_float s = Inl e \<Longrightarrow> e = ValueError"
  by (auto simp: py_float_def Let_def split: prod.splits if_splits option.splits)

lemma parse_time_error: "parse_time s = Inl e \<Longrightarrow> e = ValueError"
  by (auto simp: parse_time_def Let_def split: if_splits sum.splits dest: py_float_error)

text \<open>
  Claim C2. The claim: \<^verbatim>\<open>parse_time\<close> returns a value on every string and never
  raises. On \<^verbatim>\<open>"5 minutes"\<close> the branch for \<^verbatim>\<open>min\<close> removes the three letters and
  hands \<^verbatim>\<open>"5 utes"\<close> to \<^verbatim>\<open>float\<close>, which raises ValueError: the fallback to 60
  minutes covers only the strings that name no unit.
\<close>

theorem parse_time_raises_on_minutes:
  "parse_time ''5 minutes'' = Inl ValueError"
  by (simp add: parse_time_def string_eval float_eval)

section \<open>Properties of the feature encoder\<close>

lemma length_pad_to: "length (pad_to n xs) = n"
  by (simp add: pad_to_def)

text \<open>Whenever a vector is returned, it has 50 (30) entries.\<close>

lemma extract_state_vector_length:
  "extract_state_vector ex = Inr v \<Longrightarrow> length v = 50"
  by (auto simp: extract_state_vector_def Let_def length_pad_to
      split: json.splits sum.splits)

lemma extract_action_vector_length:
  "extract_action_vector ex = Inr v \<Longrightarrow> length v = 30"
  by (auto simp: extract_action_vector_def Let_def length_pad_to
      split: json.splits sum.splits)

text \<open>
  Claim C5. The claim: both encoders return a vector, of 50 and of 30 entries, on
  every experience. An experience whose estimated time is \<^verbatim>\<open>"45 minutes"\<close> makes
  \<^verbatim>\<open>extract_state_vector\<close> raise ValueError: its inline parser hands \<^verbatim>\<open>"45 utes"\<close>
  to \<^verbatim>\<open>float\<close>.
\<close>

theorem extract_state_vector_raises:
  "extract_state_vector
     \<lparr>state = JDict [], action = JDict [], reward = JNum 120, next_state = JNull,
      done = JBool True,
      metadata = JDict [(''task_type'', JStr ''bug''),
                        (''estimated_time'', JStr ''45 minutes'')],
      timestamp = JStr ''2024-01-01T00:00:00''\<rparr> = Inl ValueError"
  by (simp add: extract_state_vector_def items_get_def time_feature_def time_mins_def
      string_eval float_eval)

text \<open>
  The action encoder returns a vector whenever the metadata is a dictionary whose
  \<^verbatim>\<open>skills_used\<close> and \<^verbatim>\<open>agents_used\<close>, when present, are lists.
\<close>

lemma membership_list: "\<exists>bs. membership (JList xs) names = Inr bs"
  by (induction names) auto

lemma infer_skills_list: "\<exists>ys. infer_skills (JList xs) d = JList ys"
  by (simp add: infer_skills_def)

lemma extract_action_vector_total:
  assumes "metadata ex = JDict md"
    and "\<exists>xs. items_get md ''skills_used'' (JList []) = JList xs"
    and "\<exists>xs. items_get md ''agents_used'' (JList []) = JList xs"
  shows "\<exists>v. extract_action_vector ex = Inr v"
proof -
  from assms(2) obtain xs where xs: "items_get md ''skills_used'' (JList []) = JList xs" ..
  from assms(3) obtain as where as: "items_get md ''agents_used'' (JList []) = JList as" ..
  obtain ys where ys: "infer_skills (JList xs) (items_get md ''domain'' (JStr [])) = JList ys"
    using infer_skills_list by blast
  obtain bs where bs: "membership (JList ys) all_skills = Inr bs"
    using membership_list by blast
  obtain cs where cs: "membership (JList as) all_agents = Inr cs"
    using membership_list by blast
  show ?thesis
    by (simp add: extract_action_vector_def assms(1) xs as ys bs cs Let_def)
qed

subsection \<open>The blocks of the state vector\<close>

lemma one_hot_task_feature:
  "one_hot (JStr ''feature'') task_types = [Fin 1, Fin 0, Fin 0, Fin 0, Fin 0, Fin 0]"
  by (simp add: one_hot_def task_types_def)

lemma one_hot_domain_backend:
  "one_hot (JStr ''backend'') domains = [Fin 0, Fin 1, Fin 0, Fin 0, Fin 0]"
  by (simp add: one_hot_def domains_def)

lemma one_hot_unknown:
  "t \<notin> set names \<Longrightarrow> one_hot (JStr t) names = replicate (length names) (Fin 0)"
  by (induction names) (auto simp: one_hot_def)

lemma length_one_hot: "length (one_hot v names) = length names"
  by (simp add: one_hot_def)

lemma state_vector_blocks:
  assumes "metadata ex = JDict md" and "extract_state_vector ex = Inr v"
  shows "take 6 v = one_hot (items_get md ''task_type'' (JStr ''feature'')) task_types"
    and "take 5 (drop 6 v) = one_hot (items_get md ''domain'' (JStr ''backend'')) domains"
  using assms
  by (auto simp: extract_state_vector_def Let_def pad_to_def length_one_hot task_types_def
      domains_def hot_at_def split: sum.splits)

text \<open>
  The layout of the state vector: the encoder returns exactly when the time string
  can be read, and then the vector is the task block, the domain block, the two
  ordinal blocks, the time scalar and 32 zeros.
\<close>

lemma length_hot_at: "length (hot_at idx n) = n"
  by (simp add: hot_at_def)

lemma extract_state_vector_layout:
  assumes "metadata ex = JDict md"
  shows "extract_state_vector ex =
           (case time_feature (items_get md ''estimated_time'' (JStr ''1 hour'')) of
              Inl e \<Rightarrow> Inl e
            | Inr t \<Rightarrow>
                Inr (one_hot (items_get md ''task_type'' (JStr ''feature'')) task_types @
                     one_hot (items_get md ''domain'' (JStr ''backend'')) domains @
                     hot_at (index_or (items_get md ''complexity'' (JStr ''medium''))
                               complexity_levels 1) 3 @
                     hot_at (index_or (items_get md ''risk_level'' (JStr ''low''))
                               risk_levels 0) 3 @
                     [t] @ replicate 32 (Fin 0)))"
proof -
  have len: "length task_types = 6" "length domains = 5"
    by (simp_all add: task_types_def domains_def)
  show ?thesis
    by (simp add: extract_state_vector_def assms Let_def pad_to_def length_one_hot
        length_hot_at len split: sum.splits)
qed

text \<open>
  Where the state vector is returned: metadata without the key \<^verbatim>\<open>task_type\<close> gives
  the task block the one-hot of \<^verbatim>\<open>feature\<close> (index 0), metadata without the key
  \<^verbatim>\<open>domain\<close> gives the domain block the one-hot of \<^verbatim>\<open>backend\<close> (index 1); a task
  type or a domain outside the vocabulary gives the all-zero block.
\<close>

lemma missing_keys_blocks:
  assumes "metadata ex = JDict md" and "extract_state_vector ex = Inr v"
  shows "(map_of md ''task_type'' = None \<longrightarrow>
            take 6 v = [Fin 1, Fin 0, Fin 0, Fin 0, Fin 0, Fin 0]) \<and>
         (map_of md ''domain'' = None \<longrightarrow>
            take 5 (drop 6 v) = [Fin 0, Fin 1, Fin 0, Fin 0, Fin 0]) \<and>
         (\<forall>t. map_of md ''task_type'' = Some (JStr t) \<and> t \<notin> set task_types \<longrightarrow>
            take 6 v = replicate 6 (Fin 0)) \<and>
         (\<forall>d. map_of md ''domain'' = Some (JStr d) \<and> d \<notin> set domains \<longrightarrow>
            take 5 (drop 6 v) = replicate 5 (Fin 0))"
proof -
  note blocks = state_vector_blocks[OF assms]
  have len6: "length task_types = 6" by (simp add: task_types_def)
  have len5: "length domains = 5" by (simp add: domains_def)
  have a: "map_of md ''task_type'' = None \<Longrightarrow>
             take 6 v = [Fin 1, Fin 0, Fin 0, Fin 0, Fin 0, Fin 0]"
    using blocks(1) by (simp add: items_get_def one_hot_task_feature)
  have b: "map_of md ''domain'' = None \<Longrightarrow>
             take 5 (drop 6 v) = [Fin 0, Fin 1, Fin 0, Fin 0, Fin 0]"
    using blocks(2) by (simp add: items_get_def one_hot_domain_backend)
  have c: "map_of md ''task_type'' = Some (JStr t) \<Longrightarrow> t \<notin> set task_types \<Longrightarrow>
             take 6 v = replicate 6 (Fin 0)" for t
    using blocks(1) one_hot_unknown[of t task_types] len6
    by (simp add: items_get_def)
  have d: "map_of md ''domain'' = Some (JStr d) \<Longrightarrow> d \<notin> set domains \<Longrightarrow>
             take 5 (drop 6 v) = replicate 5 (Fin 0)" for d
    using blocks(2) one_hot_unknown[of d domains] len5
    by (simp add: items_get_def)
  show ?thesis using a b c d by blast
qed

text \<open>
  Two vectors: for empty metadata (both keys missing), and for the task type
  \<^verbatim>\<open>chore\<close> and the domain \<^verbatim>\<open>mobile\<close>, which are outside the vocabularies.
\<close>

lemma state_vector_empty_metadata:
  "extract_state_vector
     \<lparr>state = JDict [], action = JDict [], reward = JNum 0, next_state = JNull,
      done = JBool True, metadata = JDict [], timestamp = JStr []\<rparr> =
   Inr ([Fin 1, Fin 0, Fin 0, Fin 0, Fin 0, Fin 0] @ [Fin 0, Fin 1, Fin 0, Fin 0, Fin 0] @
        [Fin 0, Fin 1, Fin 0] @ [Fin 1, Fin 0, Fin 0] @ [Fin (1 / 8)] @
        replicate 32 (Fin 0))"
  by code_simp

lemma state_vector_unknown_values:
  "extract_state_vector
     \<lparr>state = JDict [], action = JDict [], reward = JNum 0, next_state = JNull,
      done = JBool True,
      metadata = JDict [(''task_type'', JStr ''chore''), (''domain'', JStr ''mobile'')],
      timestamp = JStr []\<rparr> =
   Inr (replicate 6 (Fin 0) @ replicate 5 (Fin 0) @
        [Fin 0, Fin 1, Fin 0] @ [Fin 1, Fin 0, Fin 0] @ [Fin (1 / 8)] @
        replicate 32 (Fin 0))"
  by code_simp

text \<open>
  Claim C9. The claim: for every experience whose metadata lacks the key
  \<^verbatim>\<open>task_type\<close> the task block is the one-hot of \<^verbatim>\<open>feature\<close>. An experience
  whose metadata holds only the estimated time \<^verbatim>\<open>"45 minutes"\<close> lacks the key, and
  \<^verbatim>\<open>extract_state_vector\<close> raises ValueError on it: no block is encoded at all.
\<close>

theorem extract_state_vector_raises_without_task_type:
  "map_of [(''estimated_time'', JStr ''45 minutes'')] ''task_type'' = None \<and>
   extract_state_vector
     \<lparr>state = JDict [], action = JDict [], reward = JNum 120, next_state = JNull,
      done = JBool True, metadata = JDict [(''estimated_time'', JStr ''45 minutes'')],
      timestamp = JStr ''2024-01-01T00:00:00''\<rparr> = Inl ValueError"
  by (simp add: extract_state_vector_def items_get_def time_feature_def time_mins_def
      string_eval float_eval)

section \<open>Properties of the reward function\<close>

lemma fadd_zero_left: "fadd (Fin 0) x = x"
  by (cases x) simp_all

lemma fadd_zero_right: "fadd x (Fin 0) = x"
  by (cases x) simp_all

lemma fsub_Fin: "fsub x (Fin b) = fadd x (Fin (- b))"
  by (simp add: fsub_def)

lemma fadd_Fin_assoc: "fadd (fadd x (Fin a)) (Fin b) = fadd x (Fin (a + b))"
  by (cases x) simp_all

lemma py_max_one_nonzero: "py_max a (Fin 1) \<noteq> Fin 0"
  by (cases a) (auto simp: py_max_def)

lemma fdiv_returns: "b \<noteq> Fin 0 \<Longrightarrow> \<exists>q. fdiv a b = Inr q"
  by (cases a; cases b) auto

lemma fdiv_fquot: "b \<noteq> Fin 0 \<Longrightarrow> fdiv a b = Inr (fquot a b)"
  using fdiv_returns[of b a] by (auto simp: fquot_def)

text \<open>
  The step of the time term. It returns, and adds the time term of the
  specification, when the outcome is no success or \<^verbatim>\<open>parse_time\<close> returns; it raises
  what \<^verbatim>\<open>parse_time\<close> raises on a successful outcome.
\<close>

lemma time_efficiency_step_returns:
  assumes "\<not> get_or (success outc) False \<or>
           (\<exists>est. parse_time (get_or (estimated_time ctx) ''1 hour'') = Inr est)"
  shows "time_efficiency_step outc ctx r = Inr (fadd r (time_term outc ctx))"
proof (cases "get_or (success outc) False")
  case False
  then show ?thesis
    by (simp add: time_efficiency_step_def time_term_def fadd_zero_right)
next
  case True
  with assms obtain est where est: "parse_time (get_or (estimated_time ctx) ''1 hour'') = Inr est"
    by blast
  show ?thesis
    using True est
    by (simp add: time_efficiency_step_def time_term_def parse_time_spec_def Let_def
        fdiv_fquot[OF py_max_one_nonzero])
qed

lemma time_efficiency_step_raises:
  assumes "get_or (success outc) False"
    and "parse_time (get_or (estimated_time ctx) ''1 hour'') = Inl e"
  shows "time_efficiency_step outc ctx r = Inl e"
  using assms by (simp add: time_efficiency_step_def)

text \<open>
  Where the function returns, it returns the sum of the seven terms; it raises
  exactly where \<^verbatim>\<open>parse_time\<close> raises on a successful outcome.
\<close>

lemma compute_reward_returns_sum:
  assumes "\<not> get_or (success outc) False \<or>
           (\<exists>est. parse_time (get_or (estimated_time ctx) ''1 hour'') = Inr est)"
  shows "compute_reward_from_outcome outc ctx = Inr (reward_spec outc ctx)"
  unfolding compute_reward_from_outcome_def reward_spec_def Let_def
    time_efficiency_step_returns[OF assms]
  by (auto simp: outcome_term_def resource_term_def quality_term_def
        satisfaction_term_def safety_term_def confidence_term_def fsub_Fin
        fadd_Fin_assoc fadd_zero_left Let_def algebra_simps)

lemma compute_reward_raises:
  assumes "get_or (success outc) False"
    and "parse_time (get_or (estimated_time ctx) ''1 hour'') = Inl e"
  shows "compute_reward_from_outcome outc ctx = Inl e"
  unfolding compute_reward_from_outcome_def Let_def time_efficiency_step_raises[OF assms]
  by simp

lemma compute_reward_raises_only_with_parse_time:
  assumes "compute_reward_from_outcome outc ctx = Inl e"
  shows "get_or (success outc) False \<and>
         parse_time (get_or (estimated_time ctx) ''1 hour'') = Inl e"
proof (cases "\<not> get_or (success outc) False \<or>
           (\<exists>est. parse_time (get_or (estimated_time ctx) ''1 hour'') = Inr est)")
  case True
  from compute_reward_returns_sum[OF True] assms show ?thesis by simp
next
  case False
  then have s: "get_or (success outc) False" by simp
  from False obtain e' where e': "parse_time (get_or (estimated_time ctx) ''1 hour'') = Inl e'"
    by (cases "parse_time (get_or (estimated_time ctx) ''1 hour'')") auto
  from compute_reward_raises[OF s e'] assms have "e' = e" by simp
  with s e' show ?thesis by simp
qed

lemma parse_time_5_minutes: "parse_time ''5 minutes'' = Inl ValueError"
  by (simp add: parse_time_def string_eval float_eval)

text \<open>
  Claim C1. The claim: for every outcome and context the function returns the sum
  of the seven terms. For a successful outcome with the estimated time
  \<^verbatim>\<open>"5 minutes"\<close> and no actual time the sum of the specification is
  100 + 20 + 10 + 15 + 10 + 10 + 2.5 (the actual time defaults to the estimate, so the
  efficiency is 1 whether the total parser reads 5 minutes or falls back to 60);
  the function calls \<^verbatim>\<open>parse_time\<close> and raises its ValueError, so it returns no
  sum.
\<close>

theorem compute_reward_raises_on_minutes:
  "compute_reward_from_outcome
     \<lparr>success = Some True, actual_time = None, resources_used = None,
      minimum_resources = None, error_count = None, user_modifications = None,
      safety_violations = None\<rparr>
     \<lparr>estimated_time = Some ''5 minutes'', confidence = None\<rparr> = Inl ValueError \<and>
   reward_spec
     \<lparr>success = Some True, actual_time = None, resources_used = None,
      minimum_resources = None, error_count = None, user_modifications = None,
      safety_violations = None\<rparr>
     \<lparr>estimated_time = Some ''5 minutes'', confidence = None\<rparr> = Fin (335 / 2)"
proof -
  have "compute_reward_from_outcome
     \<lparr>success = Some True, actual_time = None, resources_used = None,
      minimum_resources = None, error_count = None, user_modifications = None,
      safety_violations = None\<rparr>
     \<lparr>estimated_time = Some ''5 minutes'', confidence = None\<rparr> = Inl ValueError"
    by (simp add: compute_reward_from_outcome_def time_efficiency_step_def get_or_def
        parse_time_5_minutes)
  moreover have "reward_spec
     \<lparr>success = Some True, actual_time = None, resources_used = None,
      minimum_resources = None, error_count = None, user_modifications = None,
      safety_violations = None\<rparr>
     \<lparr>estimated_time = Some ''5 minutes'', confidence = None\<rparr> = Fin (335 / 2)"
    by (simp add: reward_spec_def outcome_term_def time_term_def resource_term_def
        quality_term_def satisfaction_term_def safety_term_def confidence_term_def
        get_or_def parse_time_spec_def parse_time_5_minutes fquot_def py_max_def py_min_def)
  ultimately show ?thesis by simp
qed

text \<open>
  Two evaluations. A success in half the estimated hour:
  100 + 2 * 20 + 10 + 15 + 10 + 10 + 0.5 * 5. A failure (the time string is not read)
  with two excess resources, two errors, one modification, a safety violation and
  confidence 0.8: -100 - 10 - 20 - 5 - 50 + 4.
\<close>

lemma reward_example:
  "compute_reward_from_outcome
     \<lparr>success = Some True, actual_time = Some 30, resources_used = Some [''backend''],
      minimum_resources = None, error_count = Some 0, user_modifications = None,
      safety_violations = Some False\<rparr>
     \<lparr>estimated_time = Some ''1 hour'', confidence = None\<rparr> = Inr (Fin (375 / 2))"
  by (simp add: compute_reward_from_outcome_def time_efficiency_step_def get_or_def
      parse_time_def py_max_def py_min_def fsub_def string_eval float_eval)

lemma reward_example_failure:
  "compute_reward_from_outcome
     \<lparr>success = None, actual_time = None, resources_used = Some [''a'', ''b'', ''c''],
      minimum_resources = Some 1, error_count = Some 2, user_modifications = Some 1,
      safety_violations = Some True\<rparr>
     \<lparr>estimated_time = Some ''5 minutes'', confidence = Some (4 / 5)\<rparr> = Inr (Fin (- 181))"
  by (simp add: compute_reward_from_outcome_def time_efficiency_step_def get_or_def
      fsub_def)

section \<open>Properties of the experience store\<close>


subsection \<open>Writing, then loading\<close>














subsection \<open>Lines that are skipped, lines that are loaded\<close>











text \<open>The lines that stand for no record.\<close>

lemma line_record_None:
  assumes "plain_line line"
  shows "line_record c line = None \<longleftrightarrow>
           line = None \<or>
           (\<exists>kvs. line = Some (JDict kvs) \<and>
              (map_of kvs ''state'' = None \<or> map_of kvs ''action'' = None \<or>
               map_of kvs ''reward'' = None \<or> map_of kvs ''done'' = None))"
proof (cases line)
  case None
  then show ?thesis by (simp add: line_record_def)
next
  case (Some d)
  with assms obtain kvs where d: "d = JDict kvs"
    by (cases d) (simp_all add: plain_line_def)
  show ?thesis
    unfolding Some d by (auto simp: line_record_def split: option.splits)
qed




subsection \<open>The reward filter\<close>

lemma reconstruct_reward:
  "reconstruct c d = Inr e \<Longrightarrow> dict_get d ''reward'' dflt = Inr (reward e)"
  by (cases d) (auto simp: reconstruct_def items_get_def split: sum.splits option.splits)

lemma load_line_Loaded_min_reward:
  assumes "m \<noteq> 0" and "load_line c tt dmn (Some m) line = Loaded e"
  shows "less_than (reward e) m = Inr False"
proof -
  from assms(2) obtain d where d: "line = Some d"
    by (cases line) (auto simp: load_line_def handler_def split: if_splits)
  from assms(2) d have f: "reward_filter (Some m) d = Inr False"
    and r: "reconstruct c d = Inr e"
    by (auto simp: load_line_def handler_def split: sum.splits if_splits)
  from f assms(1) reconstruct_reward[OF r, of "JNum 0"] show ?thesis
    by (simp add: reward_filter_def)
qed

lemma load_loop_min_reward:
  assumes "m \<noteq> 0"
  shows "load_loop clock limit tt dmn (Some m) i ls acc = Inr es \<Longrightarrow>
         list_all (\<lambda>e. less_than (reward e) m = Inr False) acc \<Longrightarrow>
         list_all (\<lambda>e. less_than (reward e) m = Inr False) es"
proof (induction ls arbitrary: i acc)
  case Nil
  then show ?case by simp
next
  case (Cons line rest)
  show ?case
  proof (cases "case limit of None \<Rightarrow> False | Some n \<Rightarrow> n \<noteq> 0 \<and> n \<le> int (length acc)")
    case True
    with Cons.prems show ?thesis by simp
  next
    case False
    show ?thesis
    proof (cases "load_line (clock i) tt dmn (Some m) line")
      case (Loaded e)
      then have "less_than (reward e) m = Inr False"
        by (rule load_line_Loaded_min_reward[OF assms])
      with Cons.prems(2) have "list_all (\<lambda>e. less_than (reward e) m = Inr False) (acc @ [e])"
        by simp
      moreover from Cons.prems(1) False Loaded
      have "load_loop clock limit tt dmn (Some m) (Suc i) rest (acc @ [e]) = Inr es"
        by simp
      ultimately show ?thesis by (rule Cons.IH[rotated])
    next
      case Filtered
      with Cons.prems(1) False
      have "load_loop clock limit tt dmn (Some m) (Suc i) rest acc = Inr es" by simp
      then show ?thesis using Cons.prems(2) by (rule Cons.IH)
    next
      case (Skipped e)
      with Cons.prems(1) False
      have "load_loop clock limit tt dmn (Some m) (Suc i) rest acc = Inr es" by simp
      then show ?thesis using Cons.prems(2) by (rule Cons.IH)
    next
      case (Raised e)
      with Cons.prems(1) False show ?thesis by simp
    qed
  qed
qed

text \<open>
  For a threshold other than 0, every record returned has a numeric reward that is
  not below the threshold.
\<close>

lemma load_experiences_min_reward_nonzero:
  assumes "m \<noteq> 0"
    and "load_experiences clock buf limit tt dmn (Some m) = Inr es"
    and "e \<in> set es"
  shows "(\<exists>r. reward e = JNum r \<and> m \<le> r) \<or>
         (\<exists>b. reward e = JBool b \<and> m \<le> (if b then 1 else 0))"
proof -
  have "list_all (\<lambda>e. less_than (reward e) m = Inr False) es"
  proof (cases buf)
    case None
    with assms(2) show ?thesis by (simp add: load_experiences_def)
  next
    case (Some ls)
    with assms(2) have "load_loop clock limit tt dmn (Some m) 0 ls [] = Inr es"
      by (simp add: load_experiences_def)
    then show ?thesis by (rule load_loop_min_reward[OF assms(1)]) simp
  qed
  with assms(3) have "less_than (reward e) m = Inr False"
    by (simp add: list_all_iff)
  then show ?thesis
    by (cases "reward e") (auto simp: not_less)
qed

text \<open>
  Claim C4. The claim: for every threshold \<open>m\<close> the records returned have a reward
  of at least \<open>m\<close>. With the threshold 0 the condition \<^verbatim>\<open>if min_reward and ...\<close>
  is false before the comparison is made, and a record of reward -5 is returned.
\<close>

theorem load_min_reward_zero_keeps_negative:
  "load_experiences (\<lambda>i. ''2024-06-01T12:00:00'')
     (Some [Some (JDict [(''state'', JDict []), (''action'', JDict []),
                         (''reward'', JNum (- 5)), (''next_state'', JNull),
                         (''done'', JBool True), (''metadata'', JDict []),
                         (''timestamp'', JStr ''2024-05-01T08:00:00'')])])
     None None None (Some 0) =
   Inr [\<lparr>state = JDict [], action = JDict [], reward = JNum (- 5), next_state = JNull,
         done = JBool True, metadata = JDict [],
         timestamp = JStr ''2024-05-01T08:00:00''\<rparr>]"
  by (simp add: load_experiences_def load_line_def metadata_filter_def reward_filter_def
      reconstruct_def items_get_def)

text \<open>The same file with the threshold 50: the record is left out.\<close>

lemma load_min_reward_positive_drops_negative:
  "load_experiences (\<lambda>i. ''2024-06-01T12:00:00'')
     (Some [Some (JDict [(''state'', JDict []), (''action'', JDict []),
                         (''reward'', JNum (- 5)), (''next_state'', JNull),
                         (''done'', JBool True), (''metadata'', JDict []),
                         (''timestamp'', JStr ''2024-05-01T08:00:00'')])])
     None None None (Some 50) = Inr []"
  by (simp add: load_experiences_def load_line_def metadata_filter_def reward_filter_def
      reconstruct_def items_get_def)

section \<open>The time parser of the encoder against \<^verbatim>\<open>parse_time\<close>\<close>

subsection \<open>Stripping and removing unit names\<close>

lemma py_in_sublist: "py_in sub s = sublist sub s"
  by (induction s) (simp_all add: sublist_Cons_right)

lemma strip_by_decompose:
  "\<exists>a b. s = a @ strip_by sp s @ b \<and> list_all sp a \<and> list_all sp b"
proof -
  let ?a = "takeWhile sp s"
  let ?t = "dropWhile sp s"
  let ?b = "rev (takeWhile sp (rev ?t))"
  have "rev ?t = takeWhile sp (rev ?t) @ dropWhile sp (rev ?t)"
    by simp
  then have "?t = rev (dropWhile sp (rev ?t)) @ ?b"
    by (metis rev_append rev_rev_ident)
  then have "s = ?a @ strip_by sp s @ ?b"
    by (metis strip_by_def takeWhile_dropWhile_id)
  moreover have "list_all sp ?a"
    by (simp add: list_all_iff) (meson set_takeWhileD)
  moreover have "list_all sp ?b"
    by (simp add: list_all_iff) (meson set_takeWhileD)
  ultimately show ?thesis by blast
qed

lemma strip_decompose:
  "\<exists>a b. s = a @ py_strip s @ b \<and> list_all py_isspace a \<and> list_all py_isspace b"
  unfolding py_strip_def by (rule strip_by_decompose)

lemma strip_padded:
  assumes "list_all py_isspace a" and "list_all py_isspace b"
  shows "py_strip (a @ t @ b) = py_strip t"
proof -
  have a: "dropWhile py_isspace (a @ t @ b) = dropWhile py_isspace (t @ b)"
    using assms(1) by (simp add: list_all_iff)
  have b: "dropWhile py_isspace (rev b @ u) = dropWhile py_isspace u" for u
    by (rule dropWhile_append2) (use assms(2) in \<open>simp add: list_all_iff\<close>)
  show ?thesis
  proof (cases "list_all py_isspace t")
    case True
    then have "dropWhile py_isspace (t @ b) = []" "dropWhile py_isspace t = []"
      using assms(2) by (simp_all add: list_all_iff)
    then show ?thesis by (simp only: py_strip_def strip_by_def a)
  next
    case False
    then obtain x where "x \<in> set t" "\<not> py_isspace x"
      by (auto simp: list_all_iff)
    then have "dropWhile py_isspace (t @ b) = dropWhile py_isspace t @ b"
      by (rule dropWhile_append1)
    then show ?thesis by (simp add: py_strip_def strip_by_def a b)
  qed
qed

lemma prefix_solid_space:
  assumes "solid old" and "py_isspace c"
  shows "\<not> prefix old (c # cs)"
  using assms by (cases old) (auto simp: solid_def)

lemma replace_leading_spaces:
  assumes "solid old" and "list_all py_isspace a"
  shows "py_replace old [] (a @ t) = a @ py_replace old [] t"
  using assms(2)
proof (induction a)
  case Nil
  then show ?case by simp
next
  case (Cons c a)
  then show ?case
    using prefix_solid_space[OF assms(1), of c "a @ t"] assms(1)
    by (simp add: solid_def)
qed

lemma prefix_solid_append_spaces:
  assumes "solid old" and "list_all py_isspace b"
  shows "prefix old (t @ b) \<longleftrightarrow> prefix old t"
proof
  assume "prefix old (t @ b)"
  then have "prefix old t \<or> (\<exists>us. old = t @ us \<and> prefix us b)"
    by (simp add: prefix_append)
  then show "prefix old t"
  proof
    assume "prefix old t"
    then show ?thesis .
  next
    assume "\<exists>us. old = t @ us \<and> prefix us b"
    then obtain us where us: "old = t @ us" "prefix us b" by blast
    show ?thesis
    proof (cases us)
      case Nil
      with us show ?thesis by simp
    next
      case (Cons u us')
      with us have "u \<in> set b" "u \<in> set old"
        by (auto simp: prefix_def)
      then show ?thesis
        using assms by (auto simp: solid_def list_all_iff)
    qed
  qed
next
  assume "prefix old t"
  then show "prefix old (t @ b)" by (rule prefix_prefix)
qed

lemma replace_spaces_only:
  assumes "solid old" and "list_all py_isspace b"
  shows "py_replace old [] b = b"
  using replace_leading_spaces[OF assms, of "[]"] assms(1) by (simp add: solid_def)

lemma replace_trailing_spaces_aux:
  "new = [] \<Longrightarrow> solid old \<Longrightarrow> list_all py_isspace b \<Longrightarrow>
     py_replace old new (t @ b) = py_replace old new t @ b"
proof (induction old new t rule: py_replace.induct)
  case (1 old new)
  then show ?case using replace_spaces_only[of old b]
    by (simp add: solid_def)
next
  case (2 old new c cs)
  have ne: "old \<noteq> []" using 2(5) by (simp add: solid_def)
  show ?case
  proof (cases "prefix old (c # cs)")
    case True
    then have le: "length old \<le> length (c # cs)" by (rule prefix_length_le)
    from True have p: "prefix old ((c # cs) @ b)" by (rule prefix_prefix)
    have "drop (length old) (c # cs @ b) = drop (length old) (c # cs) @ b"
      using drop_append[of "length old" "c # cs" b] le by simp
    with 2(2)[OF ne True 2(4) 2(5) 2(6)] True p ne 2(4) show ?thesis
      by (simp del: drop_Suc_Cons)
  next
    case False
    then have "\<not> prefix old ((c # cs) @ b)"
      using prefix_solid_append_spaces[OF 2(5) 2(6), of "c # cs"] by simp
    with 2(3)[OF ne False 2(4) 2(5) 2(6)] False ne 2(4) show ?thesis by simp
  qed
qed

lemma replace_trailing_spaces:
  assumes "solid old" and "list_all py_isspace b"
  shows "py_replace old [] (t @ b) = py_replace old [] t @ b"
  using replace_trailing_spaces_aux[OF refl assms] .

lemma replace_padded:
  assumes "solid old" and "list_all py_isspace a" and "list_all py_isspace b"
  shows "py_replace old [] (a @ t @ b) = a @ py_replace old [] t @ b"
  by (simp add: replace_leading_spaces[OF assms(1,2)] replace_trailing_spaces[OF assms(1,3)])

lemma py_in_strip:
  assumes "solid sub"
  shows "py_in sub (py_strip s) = py_in sub s"
proof -
  have lead: "sublist x (dropWhile py_isspace u) = sublist x u" if "solid x" for x u
  proof (induction u)
    case Nil
    then show ?case by simp
  next
    case (Cons c u)
    then show ?case
      using prefix_solid_space[OF that, of c u] by (simp add: sublist_Cons_right)
  qed
  have srev: "solid (rev sub)" using assms by (simp add: solid_def list_all_iff)
  have "sublist sub (py_strip s) = sublist (rev sub) (dropWhile py_isspace (rev (dropWhile py_isspace s)))"
    by (simp add: py_strip_def strip_by_def sublist_rev_right)
  also have "\<dots> = sublist (rev sub) (rev (dropWhile py_isspace s))"
    by (rule lead[OF srev])
  also have "\<dots> = sublist sub (dropWhile py_isspace s)"
    by simp
  also have "\<dots> = sublist sub s"
    by (rule lead[OF assms])
  finally show ?thesis by (simp add: py_in_sublist)
qed

subsection \<open>Strings that float rejects\<close>

lemma digitpart_chars: "digitpart ds \<Longrightarrow> c \<in> set ds \<Longrightarrow> is_digit c \<or> c = CHR ''_''"
  by (induction ds rule: digitpart.induct) (auto split: if_splits)

lemma parse_number_chars:
  assumes "parse_number m = Some v" and "c \<in> set m"
  shows "number_char c"
proof -
  let ?ip = "takeWhile (\<lambda>c. \<not> is_dot c) m"
  let ?rest = "dropWhile (\<lambda>c. \<not> is_dot c) m"
  have m: "m = ?ip @ ?rest" by simp
  show ?thesis
  proof (cases "?rest = []")
    case True
    with assms(1) have "digitpart ?ip"
      by (simp add: parse_number_def Let_def split: if_splits)
    moreover from True have "m = ?ip"
      by (metis append_Nil2 takeWhile_dropWhile_id)
    ultimately show ?thesis
      using assms(2) digitpart_chars[of ?ip c] by (auto simp: number_char_def)
  next
    case False
    then obtain d fp where rest: "?rest = d # fp" by (cases ?rest) auto
    then have d: "is_dot d" using hd_dropWhile[of "\<lambda>c. \<not> is_dot c" m] False by auto
    from assms(1) False rest have parts:
      "(?ip = [] \<or> digitpart ?ip) \<and> (fp = [] \<or> digitpart fp)"
      by (auto simp: parse_number_def Let_def split: if_splits)
    from m rest assms(2) have "c \<in> set ?ip \<or> c = d \<or> c \<in> set fp"
      by (metis Un_iff set_ConsD set_append)
    then show ?thesis
      using parts d digitpart_chars[of ?ip c] digitpart_chars[of fp c]
      by (auto simp: number_char_def is_dot_def)
  qed
qed

lemma parse_exponent_chars:
  assumes "parse_exponent ex = Some e" and "c \<in> set ex"
  shows "number_char c"
proof -
  obtain neg ds where sp: "split_sign ex = (neg, ds)" by (cases "split_sign ex")
  with assms(1) have dp: "digitpart ds"
    by (simp add: parse_exponent_def split: if_splits)
  from sp assms(2) have "c \<in> set ds \<or> c = CHR ''-'' \<or> c = CHR ''+''"
    by (auto simp: split_sign_def split: list.splits if_splits)
  then show ?thesis
    using dp digitpart_chars[of ds c] by (auto simp: number_char_def)
qed

lemma parse_floatnumber_chars:
  assumes "parse_floatnumber u = Some v" and "c \<in> set u"
  shows "number_char c"
proof -
  let ?m = "takeWhile (\<lambda>c. \<not> is_e c) u"
  let ?rest = "dropWhile (\<lambda>c. \<not> is_e c) u"
  have u: "u = ?m @ ?rest" by simp
  from assms(1) obtain w where w: "parse_number ?m = Some w"
    by (auto simp: parse_floatnumber_def Let_def split: option.splits)
  show ?thesis
  proof (cases "?rest = []")
    case True
    then have "u = ?m"
      by (metis append_Nil2 takeWhile_dropWhile_id)
    with assms(2) w show ?thesis using parse_number_chars[of ?m w c] by simp
  next
    case False
    then obtain x ex where rest: "?rest = x # ex" by (cases ?rest) auto
    then have x: "is_e x" using hd_dropWhile[of "\<lambda>c. \<not> is_e c" u] False by auto
    from assms(1) w False rest obtain e where e: "parse_exponent ex = Some e"
      by (auto simp: parse_floatnumber_def Let_def split: option.splits if_splits)
    from u rest assms(2) have "c \<in> set ?m \<or> c = x \<or> c \<in> set ex"
      by (metis Un_iff set_ConsD set_append)
    then show ?thesis
      using x parse_number_chars[OF w, of c] parse_exponent_chars[OF e, of c]
      by (auto simp: number_char_def is_e_def)
  qed
qed

text \<open>The letters h and m occur in no string that float accepts.\<close>

lemma letter_h_facts:
  "\<not> py_isspace CHR ''h''" "\<not> number_char CHR ''h''" "lower_char CHR ''h'' = CHR ''h''"
  "CHR ''h'' \<notin> set ''inf''" "CHR ''h'' \<notin> set ''infinity''" "CHR ''h'' \<notin> set ''nan''"
  "\<not> float_isspace CHR ''h''"
  by (simp_all add: py_isspace_def float_isspace_def number_char_def is_digit_def
      lower_char_def upper_chars_def lower_chars_def)

lemma letter_m_facts:
  "\<not> py_isspace CHR ''m''" "\<not> number_char CHR ''m''" "lower_char CHR ''m'' = CHR ''m''"
  "CHR ''m'' \<notin> set ''inf''" "CHR ''m'' \<notin> set ''infinity''" "CHR ''m'' \<notin> set ''nan''"
  "\<not> float_isspace CHR ''m''"
  by (simp_all add: py_isspace_def float_isspace_def number_char_def is_digit_def
      lower_char_def upper_chars_def lower_chars_def)

lemma unit_letter_facts:
  assumes "unit_letter c"
  shows "\<not> py_isspace c" "\<not> number_char c" "lower_char c = c"
    "c \<notin> set ''inf''" "c \<notin> set ''infinity''" "c \<notin> set ''nan''"
    "\<not> float_isspace c"
proof -
  from assms have c: "c = CHR ''h'' \<or> c = CHR ''m''"
    by (simp add: unit_letter_def)
  show "\<not> py_isspace c" using c letter_h_facts(1) letter_m_facts(1) by blast
  show "\<not> number_char c" using c letter_h_facts(2) letter_m_facts(2) by blast
  show "lower_char c = c" using c letter_h_facts(3) letter_m_facts(3) by metis
  show "c \<notin> set ''inf''" using c letter_h_facts(4) letter_m_facts(4) by blast
  show "c \<notin> set ''infinity''" using c letter_h_facts(5) letter_m_facts(5) by blast
  show "c \<notin> set ''nan''" using c letter_h_facts(6) letter_m_facts(6) by blast
  show "\<not> float_isspace c" using c letter_h_facts(7) letter_m_facts(7) by blast
qed

lemma in_set_strip_by:
  assumes "c \<in> set s" and "\<not> sp c"
  shows "c \<in> set (strip_by sp s)"
proof -
  obtain a b where d: "s = a @ strip_by sp s @ b" "list_all sp a" "list_all sp b"
    using strip_by_decompose by blast
  from assms(1) have "c \<in> set (a @ strip_by sp s @ b)" using d(1) by simp
  then show ?thesis using d(2,3) assms(2) by (auto simp: list_all_iff)
qed

lemma in_set_strip:
  assumes "c \<in> set s" and "\<not> py_isspace c"
  shows "c \<in> set (py_strip s)"
  unfolding py_strip_def using assms by (rule in_set_strip_by[where sp = py_isspace])

lemma split_sign_set:
  "split_sign t = (neg, u) \<Longrightarrow> c \<in> set t \<Longrightarrow> c \<noteq> CHR ''-'' \<Longrightarrow> c \<noteq> CHR ''+'' \<Longrightarrow>
     c \<in> set u"
  by (cases t) (auto simp: split_sign_def split: if_splits)

lemma py_float_rejects_unit_letter:
  assumes "c \<in> set s" and "unit_letter c"
  shows "py_float s = Inl ValueError"
proof -
  note facts = unit_letter_facts[OF assms(2)]
  obtain neg u where sp: "split_sign (strip_by float_isspace s) = (neg, u)"
    by (cases "split_sign (strip_by float_isspace s)")
  have "c \<in> set (strip_by float_isspace s)"
    using assms(1) facts(7) by (rule in_set_strip_by[where sp = float_isspace])
  moreover have "c \<noteq> CHR ''-''" "c \<noteq> CHR ''+''"
    using assms(2) by (auto simp: unit_letter_def)
  ultimately have cu: "c \<in> set u"
    using sp by (rule split_sign_set[rotated])
  then have "c \<in> set (py_lower u)"
    using facts(3) by (force simp: py_lower_def)
  then have words: "py_lower u \<noteq> ''inf''" "py_lower u \<noteq> ''infinity''" "py_lower u \<noteq> ''nan''"
    using facts(4,5,6) by metis+
  have "parse_floatnumber u = None"
  proof (cases "parse_floatnumber u")
    case None
    then show ?thesis .
  next
    case (Some v)
    then show ?thesis using parse_floatnumber_chars[OF Some cu] facts(2) by simp
  qed
  with sp words show ?thesis by (simp add: py_float_def)
qed

lemma in_set_replace:
  "new = [] \<Longrightarrow> c \<in> set s \<Longrightarrow> c \<notin> set old \<Longrightarrow> c \<in> set (py_replace old new s)"
proof (induction old new s rule: py_replace.induct)
  case (1 old new)
  then show ?case by simp
next
  case (2 old new x xs)
  show ?case
  proof (cases "old = []")
    case True
    have "c = x \<or> c \<in> set xs" using 2(5) by simp
    then show ?thesis
    proof
      assume "c = x"
      with True show ?thesis by simp
    next
      assume "c \<in> set xs"
      then have "c \<in> set (py_replace old new xs)"
        using 2(1)[OF True 2(4) _ 2(6)] by simp
      with True show ?thesis by simp
    qed
  next
    case ne: False
    show ?thesis
    proof (cases "prefix old (x # xs)")
      case True
      then obtain zs where zs: "x # xs = old @ zs" by (rule prefixE)
      then have dr: "drop (length old) (x # xs) = zs" by simp
      from zs 2(5) have "c \<in> set old \<or> c \<in> set zs"
        by (metis Un_iff set_append)
      with 2(6) have "c \<in> set zs" by simp
      then have "c \<in> set (py_replace old new (drop (length old) (x # xs)))"
        using 2(2)[OF ne True 2(4) _ 2(6)] dr by simp
      then show ?thesis using ne True by (simp del: drop_Suc_Cons)
    next
      case False
      have "c = x \<or> c \<in> set xs" using 2(5) by simp
      then show ?thesis
      proof
        assume "c = x"
        with ne False show ?thesis by simp
      next
        assume "c \<in> set xs"
        then have "c \<in> set (py_replace old new xs)"
          using 2(3)[OF ne False 2(4) _ 2(6)] by simp
        with ne False show ?thesis by simp
      qed
    qed
  qed
qed

subsection \<open>Agreement of the two parsers\<close>

lemma solid_units: "solid ''min''" "solid ''hour''" "solid ''hours''" "solid ''day''"
  by (simp_all add: solid_def py_isspace_def)

lemma in_set_of_py_in: "py_in sub s \<Longrightarrow> c \<in> set sub \<Longrightarrow> c \<in> set s"
  using set_mono_sublist[of sub s] by (auto simp: py_in_sublist)

lemma strip_replace_strip:
  assumes "solid old"
  shows "py_strip (py_replace old [] (py_strip t)) = py_strip (py_replace old [] t)"
proof -
  obtain a b where d: "t = a @ py_strip t @ b" "list_all py_isspace a" "list_all py_isspace b"
    using strip_decompose by blast
  have "py_replace old [] t = a @ py_replace old [] (py_strip t) @ b"
    using replace_padded[OF assms d(2,3), of "py_strip t"] d(1) by simp
  then show ?thesis
    using strip_padded[OF d(2,3)] by simp
qed

lemma strip_replace2_strip:
  assumes "solid old1" and "solid old2"
  shows "py_strip (py_replace old2 [] (py_replace old1 [] (py_strip t))) =
         py_strip (py_replace old2 [] (py_replace old1 [] t))"
proof -
  obtain a b where d: "t = a @ py_strip t @ b" "list_all py_isspace a" "list_all py_isspace b"
    using strip_decompose by blast
  have "py_replace old1 [] t = a @ py_replace old1 [] (py_strip t) @ b"
    using replace_padded[OF assms(1) d(2,3), of "py_strip t"] d(1) by simp
  then have "py_replace old2 [] (py_replace old1 [] t) =
               a @ py_replace old2 [] (py_replace old1 [] (py_strip t)) @ b"
    using replace_padded[OF assms(2) d(2,3)] by simp
  then show ?thesis
    using strip_padded[OF d(2,3)] by simp
qed

lemma float_after_removing_hours:
  assumes "py_in ''min'' t"
  shows "py_float (py_strip (py_replace ''hour'' [] (py_replace ''hours'' [] t))) = Inl ValueError"
proof -
  have m: "CHR ''m'' \<in> set t" using in_set_of_py_in[OF assms] by simp
  have "CHR ''m'' \<in> set (py_replace ''hours'' [] t)"
    by (rule in_set_replace[OF refl m]) simp
  then have "CHR ''m'' \<in> set (py_replace ''hour'' [] (py_replace ''hours'' [] t))"
    by (rule in_set_replace[OF refl]) simp
  then have "CHR ''m'' \<in> set (py_strip (py_replace ''hour'' [] (py_replace ''hours'' [] t)))"
    by (rule in_set_strip) (simp add: letter_m_facts)
  then show ?thesis
    by (rule py_float_rejects_unit_letter) (simp add: unit_letter_def)
qed

lemma float_after_removing_min:
  assumes "py_in ''hour'' t"
  shows "py_float (py_strip (py_replace ''min'' [] t)) = Inl ValueError"
proof -
  have h: "CHR ''h'' \<in> set t" using in_set_of_py_in[OF assms] by simp
  have "CHR ''h'' \<in> set (py_replace ''min'' [] t)"
    by (rule in_set_replace[OF refl h]) simp
  then have "CHR ''h'' \<in> set (py_strip (py_replace ''min'' [] t))"
    by (rule in_set_strip) (simp add: letter_h_facts)
  then show ?thesis
    by (rule py_float_rejects_unit_letter) (simp add: unit_letter_def)
qed

lemma time_mins_eq_parse_time:
  assumes "py_in ''hour'' (py_lower s) \<or> py_in ''min'' (py_lower s) \<or>
           \<not> py_in ''day'' (py_lower s)"
  shows "time_mins s = parse_time s"
proof -
  define t where "t = py_lower s"
  note tests = py_in_strip[OF solid_units(1), of t] py_in_strip[OF solid_units(2), of t]
    py_in_strip[OF solid_units(4), of t]
  consider (both) "py_in ''hour'' t" "py_in ''min'' t"
    | (hour) "py_in ''hour'' t" "\<not> py_in ''min'' t"
    | (minutes) "\<not> py_in ''hour'' t" "py_in ''min'' t"
    | (none) "\<not> py_in ''hour'' t" "\<not> py_in ''min'' t" "\<not> py_in ''day'' t"
    using assms unfolding t_def by blast
  then show ?thesis
  proof cases
    case both
    have "time_mins s = Inl ValueError"
      using both float_after_removing_hours[OF both(2)]
      by (simp add: time_mins_def t_def[symmetric])
    moreover have "py_in ''hour'' (py_strip t)" using both(1) tests(2) by simp
    then have "py_float (py_strip (py_replace ''min'' [] (py_strip t))) = Inl ValueError"
      by (rule float_after_removing_min)
    then have "parse_time s = Inl ValueError"
      using both tests by (simp add: parse_time_def t_def[symmetric])
    ultimately show ?thesis by simp
  next
    case hour
    then show ?thesis
      using tests strip_replace2_strip[OF solid_units(3) solid_units(2), of t]
      by (simp add: time_mins_def parse_time_def t_def[symmetric])
  next
    case minutes
    then show ?thesis
      using tests strip_replace_strip[OF solid_units(1), of t]
      by (simp add: time_mins_def parse_time_def t_def[symmetric])
  next
    case none
    then show ?thesis
      using tests by (simp add: time_mins_def parse_time_def t_def[symmetric])
  qed
qed

text \<open>
  Claim C3, as amended. On every time string that names an hour or a minute, or
  that names no day, the minutes read by \<^verbatim>\<open>extract_state_vector\<close> are the result
  of \<^verbatim>\<open>parse_time\<close> (a ValueError included), so that the scalar of the state vector
  is \<open>min (parse_time s / 480) 1\<close>.
\<close>

theorem state_time_scalar_agrees_with_parse_time:
  assumes "py_in ''hour'' (py_lower s) \<or> py_in ''min'' (py_lower s) \<or>
           \<not> py_in ''day'' (py_lower s)"
  shows "time_mins s = parse_time s \<and>
         time_feature (JStr s) =
           (case parse_time s of
              Inl e \<Rightarrow> Inl e
            | Inr mins \<Rightarrow>
                (case fdiv mins (Fin 480) of
                   Inl e \<Rightarrow> Inl e
                 | Inr ratio \<Rightarrow> Inr (py_min ratio (Fin 1))))"
  using time_mins_eq_parse_time[OF assms] by (simp add: time_feature_def)

text \<open>
  The inline parser has no branch for days: a string that names neither an hour nor
  a minute counts as 60 minutes.
\<close>

lemma time_mins_ignores_days:
  assumes "\<not> py_in ''hour'' (py_lower s)" and "\<not> py_in ''min'' (py_lower s)"
  shows "time_mins s = Inr (Fin 60)"
  using assms by (simp add: time_mins_def)

text \<open>
  Claim C3, as stated: the minutes read by \<^verbatim>\<open>extract_state_vector\<close> equal
  \<^verbatim>\<open>parse_time\<close> on every string. On \<^verbatim>\<open>"1 day"\<close> the inline parser yields 60
  minutes and the scalar 1/8, where \<^verbatim>\<open>parse_time\<close> yields 480 minutes, which would
  give the scalar 1.
\<close>

theorem state_time_scalar_differs_on_days:
  "time_mins ''1 day'' = Inr (Fin 60) \<and> parse_time ''1 day'' = Inr (Fin 480) \<and>
   time_mins ''1 day'' \<noteq> parse_time ''1 day'' \<and>
   time_feature (JStr ''1 day'') = Inr (Fin (1 / 8))"
  by (simp add: time_feature_def time_mins_def parse_time_def py_min_def string_eval float_eval)

text \<open>
  Claim C3, witness: the amended claim at \<^verbatim>\<open>"2 Hours"\<close>, 120 minutes on both
  sides and the scalar 1/4.
\<close>

theorem state_time_scalar_agrees_with_parse_time_witness:
  "py_in ''hour'' (py_lower ''2 Hours'') \<and>
   time_mins ''2 Hours'' = Inr (Fin 120) \<and> parse_time ''2 Hours'' = Inr (Fin 120) \<and>
   time_feature (JStr ''2 Hours'') = Inr (Fin (1 / 4))"
proof -
  have h: "py_in ''hour'' (py_lower ''2 Hours'')"
    by (simp add: string_eval)
  have p: "parse_time ''2 Hours'' = Inr (Fin 120)"
    by (simp add: parse_time_def string_eval float_eval)
  from h have "py_in ''hour'' (py_lower ''2 Hours'') \<or> py_in ''min'' (py_lower ''2 Hours'') \<or>
           \<not> py_in ''day'' (py_lower ''2 Hours'')" by (rule disjI1)
  from state_time_scalar_agrees_with_parse_time[OF this] h p show ?thesis
    by (simp add: py_min_def)
qed

end
